theory Spec2Isabelle
  imports Main "HOL-Library.Sublist"
begin

section \<open>Python values shared by both handlers\<close>

text \<open>
  Python strings are modelled as \<open>string\<close>; a \<open>char\<close> stands for a code point below 256.
  Exceptions are values: a computation that may raise returns \<open>py_error + 'a\<close>, with
  \<open>Inl\<close> for the exception. \<open>NameError\<close> stands for Python's \<open>UnboundLocalError\<close>
  (a subclass of \<open>NameError\<close>) and carries the name of the unbound local variable.
\<close>

datatype py_error =
    ClientError string
  | KeyError string
  | TypeError string
  | NameError string
  | OtherException string

text \<open>A handler's structured result: \<open>{"statusCode": ..., "body": ...}\<close>.\<close>

record response =
  statusCode :: int
  body :: string

text \<open>The line terminator \<open>"\n"\<close>.\<close>

definition newline :: string where
  "newline = [CHR 0x0A]"

text \<open>
  \<open>str.isspace\<close> restricted to code points below 256: tab, line feed, vertical tab, form
  feed, carriage return, the separators 0x1C to 0x1F, space, NEL (0x85) and the no-break
  space (0xA0).
\<close>

definition isspace :: "char \<Rightarrow> bool" where
  "isspace c \<longleftrightarrow> c \<in> set [CHR 0x09, CHR 0x0A, CHR 0x0B, CHR 0x0C, CHR 0x0D,
     CHR 0x1C, CHR 0x1D, CHR 0x1E, CHR 0x1F, CHR 0x20, CHR 0x85, CHR 0xA0]"

text \<open>\<open>str.strip()\<close>: leading and trailing whitespace removed.\<close>

definition strip :: "string \<Rightarrow> string" where
  "strip s = rev (dropWhile isspace (rev (dropWhile isspace s)))"

section \<open>The transcript normalizer (\<open>eventbridge-bedrock-inference/lambda_function.py\<close>)\<close>

subsection \<open>The Transcribe result\<close>

text \<open>
  An element of \<open>results.items\<close>. The constructor is the item's \<open>"type"\<close>:
  \<open>Pronunciation content speaker_label\<close> carries \<open>alternatives[0].content\<close> and
  \<open>speaker_label\<close>, \<open>Punctuation content\<close> carries \<open>alternatives[0].content\<close>, and
  \<open>OtherItem\<close> is an item of any other type, which the loop passes over. The keys that
  the schema of the Transcribe output guarantees are part of the type.
\<close>

datatype item =
    Pronunciation string string
  | Punctuation string
  | OtherItem

text \<open>\<open>data["results"]\<close>, whose \<open>"items"\<close> key may be absent (\<open>.get("items", [])\<close>).\<close>

record results_obj =
  items :: "item list option"

record transcribe_output =
  results :: results_obj

text \<open>
  What \<open>open(json_file)\<close> followed by \<open>json.load\<close> yields: the exception
  \<open>json.decoder.JSONDecodeError\<close> for a file that is not valid JSON, the parsed
  document otherwise.
\<close>

datatype 'a json_load = JSONDecodeError | Loaded 'a

subsection \<open>The loop of \<open>convert_to_txt_file\<close>\<close>

text \<open>
  The local variables of \<open>convert_to_txt_file\<close>. \<open>current_speaker\<close> starts as Python's
  \<open>None\<close>; \<open>speaker_label\<close> is bound only by the pronunciation branch of the loop body,
  so \<open>None\<close> here means that the name is still unbound. \<open>output_file\<close> is what has been
  written to the temporary file so far.
\<close>

record locals =
  current_speaker :: "string option"
  current_text :: string
  output_lines :: "string list"
  output_file :: string
  speaker_label :: "string option"

definition init_locals :: locals where
  "init_locals = \<lparr>current_speaker = None, current_text = [], output_lines = [],
     output_file = [], speaker_label = None\<rparr>"

text \<open>\<open>str()\<close> of a value that is \<open>None\<close> or a string, as an f-string formats it.\<close>

fun format_speaker :: "string option \<Rightarrow> string" where
  "format_speaker None = ''None''"
| "format_speaker (Some l) = l"

text \<open>The f-string \<open>f"{speaker}: {text.strip()}\n"\<close>.\<close>

definition format_line :: "string option \<Rightarrow> string \<Rightarrow> string" where
  "format_line speaker text = format_speaker speaker @ '': '' @ strip text @ newline"

text \<open>\<open>output_file.write(line)\<close> followed by \<open>output.append(line)\<close>.\<close>

definition emit :: "string \<Rightarrow> locals \<Rightarrow> locals" where
  "emit line s = s\<lparr>output_lines := output_lines s @ [line], output_file := output_file s @ line\<rparr>"

text \<open>One iteration of \<open>for item in data["results"].get("items", [])\<close>.\<close>

fun loop_body :: "locals \<Rightarrow> item \<Rightarrow> locals" where
  "loop_body s (Pronunciation content label) =
     (let s1 = s\<lparr>speaker_label := Some label\<rparr> in
      if Some label \<noteq> current_speaker s1 then
        (let s2 = (if current_text s1 \<noteq> []
                   then emit (format_line (current_speaker s1) (current_text s1)) s1
                   else s1)
         in s2\<lparr>current_speaker := Some label, current_text := content\<rparr>)
      else s1\<lparr>current_text := current_text s1 @ '' '' @ content\<rparr>)"
| "loop_body s (Punctuation content) = s\<lparr>current_text := current_text s @ content\<rparr>"
| "loop_body s OtherItem = s"

text \<open>The whole loop, from left to right.\<close>

fun loop :: "locals \<Rightarrow> item list \<Rightarrow> locals" where
  "loop s [] = s"
| "loop s (it # its) = loop (loop_body s it) its"

text \<open>
  The statements after the loop: \<open>if current_text:\<close> emits the last line, formatted with
  \<open>speaker_label\<close> (not \<open>current_speaker\<close>); reading the name while it is unbound raises.
\<close>

definition final_line :: "locals \<Rightarrow> py_error + locals" where
  "final_line s =
     (if current_text s \<noteq> [] then
        (case speaker_label s of
           None \<Rightarrow> Inl (NameError ''speaker_label'')
         | Some label \<Rightarrow> Inr (emit (format_line (Some label) (current_text s)) s))
      else Inr s)"

text \<open>The body of the \<open>with open(output_path, "w")\<close> block, on the list of items.\<close>

definition normalize :: "item list \<Rightarrow> py_error + locals" where
  "normalize its = final_line (loop init_locals its)"

text \<open>
  \<open>convert_to_txt_file\<close>. \<open>tmp_name\<close> is the name that \<open>tempfile.NamedTemporaryFile\<close>
  returns, \<open>loaded\<close> what reading and parsing \<open>json_file\<close> yields. The Python function
  returns \<open>None\<close> for a file that is not JSON, and the pair
  \<open>("".join(output), output_path)\<close> otherwise.
\<close>

definition convert_to_txt_file ::
    "string \<Rightarrow> transcribe_output json_load \<Rightarrow> py_error + (string \<times> string) option" where
  "convert_to_txt_file tmp_name loaded =
     (case loaded of
        JSONDecodeError \<Rightarrow> Inr None
      | Loaded data \<Rightarrow>
          (case normalize (case items (results data) of None \<Rightarrow> [] | Some its \<Rightarrow> its) of
             Inl e \<Rightarrow> Inl e
           | Inr s \<Rightarrow> Inr (Some (concat (output_lines s), tmp_name))))"

text \<open>The first component of what \<open>convert_to_txt_file\<close> returns: the transcript content.\<close>

definition returned_content ::
    "py_error + (string \<times> string) option \<Rightarrow> py_error + string option" where
  "returned_content r = map_sum id (map_option fst) r"

subsection \<open>Speaker runs, as the specification words them\<close>

text \<open>The speaker labels of the pronunciation items, in order; punctuation is passed over.\<close>

fun speaker_labels :: "item list \<Rightarrow> string list" where
  "speaker_labels [] = []"
| "speaker_labels (Pronunciation content label # its) = label # speaker_labels its"
| "speaker_labels (Punctuation content # its) = speaker_labels its"
| "speaker_labels (OtherItem # its) = speaker_labels its"

text \<open>The number of maximal runs of equal consecutive labels.\<close>

fun count_runs :: "string list \<Rightarrow> nat" where
  "count_runs [] = 0"
| "count_runs [l] = 1"
| "count_runs (l # m # ls) = (if l = m then 0 else 1) + count_runs (m # ls)"

text \<open>
  The number of maximal runs of consecutive pronunciation items that share a speaker
  label: runs are separated by speaker changes only.
\<close>

definition speaker_runs :: "item list \<Rightarrow> nat" where
  "speaker_runs its = count_runs (speaker_labels its)"

text \<open>The speaker label of the last pronunciation item of the sequence, if there is one.\<close>

definition last_seen_speaker :: "item list \<Rightarrow> string option" where
  "last_seen_speaker its =
     (if speaker_labels its = [] then None else Some (last (speaker_labels its)))"

text \<open>No punctuation item stands before the first pronunciation item.\<close>

fun no_leading_punctuation :: "item list \<Rightarrow> bool" where
  "no_leading_punctuation [] = True"
| "no_leading_punctuation (Pronunciation content label # its) = True"
| "no_leading_punctuation (Punctuation content # its) = False"
| "no_leading_punctuation (OtherItem # its) = no_leading_punctuation its"

text \<open>The contents of the punctuation items, joined.\<close>

fun punctuation_text :: "item list \<Rightarrow> string" where
  "punctuation_text [] = []"
| "punctuation_text (Punctuation content # its) = content @ punctuation_text its"
| "punctuation_text (it # its) = punctuation_text its"

section \<open>The summarizer handler (\<open>eventbridge-bedrock-inference/lambda_function.py\<close>)\<close>

definition quote :: string where
  "quote = [CHR 0x27]"

definition dquote :: string where
  "dquote = [CHR 0x22]"

text \<open>
  \<open>str(e)\<close>. A \<open>ClientError\<close>, \<open>TypeError\<close> or other exception carries its message, a
  \<open>KeyError\<close> the missing key (shown quoted), a \<open>NameError\<close> the name of the variable.
\<close>

fun str_of_error :: "py_error \<Rightarrow> string" where
  "str_of_error (ClientError msg) = msg"
| "str_of_error (KeyError k) = quote @ k @ quote"
| "str_of_error (TypeError msg) = msg"
| "str_of_error (NameError name) =
     ''cannot access local variable '' @ quote @ name @ quote @
     '' where it is not associated with a value''"
| "str_of_error (OtherException msg) = msg"

text \<open>The job-status-change event: \<open>event["detail"]\<close> with its two keys.\<close>

record job_detail =
  TranscriptionJobName :: string
  TranscriptionJobStatus :: string

record job_event =
  detail :: "job_detail option"

text \<open>
  The dictionary that \<open>json.dumps\<close> turns into the body of the model invocation. The two
  float literals are kept as written.
\<close>

record content_block =
  block_type :: string
  block_text :: string

record message =
  role :: string
  content :: "content_block list"

record model_request =
  anthropic_version :: string
  max_tokens :: int
  system :: string
  messages :: "message list"
  temperature :: string
  top_p :: string
  top_k :: int

text \<open>
  The calls the handler makes to the three services, with their arguments:
  \<open>get_transcription_job(TranscriptionJobName)\<close>, \<open>download_file(Bucket, Key, Filename)\<close>,
  \<open>upload_file(Filename, Bucket, Key)\<close>, \<open>invoke_model(modelId, body)\<close> and
  \<open>put_object(Body, Bucket, Key)\<close>. A handler returns the list of the calls it made, in
  order, beside its result.
\<close>

datatype call =
    GetTranscriptionJob string
  | DownloadFile string string string
  | UploadFile string string string
  | InvokeModel string model_request
  | PutObject string string string

text \<open>\<open>os.environ\<close>: the variable \<open>OUTPUT_BUCKET\<close> may be unset.\<close>

record environ =
  OUTPUT_BUCKET :: "string option"

text \<open>\<open>response["ResponseMetadata"]["HTTPStatusCode"]\<close>.\<close>

record response_metadata =
  HTTPStatusCode :: int

text \<open>
  The response of \<open>invoke_model\<close>. \<open>response_body\<close> is \<open>None\<close> when the response has no
  \<open>"body"\<close> key; otherwise it holds \<open>str(response["body"])\<close> and what
  \<open>json.loads(response["body"].read())["content"][0]["text"]\<close> yields.
\<close>

record model_response = response_metadata +
  response_body :: "(string \<times> (py_error + string)) option"

text \<open>The response of \<open>put_object\<close>, with \<open>str(s3_response)\<close>.\<close>

record s3_response = response_metadata +
  response_str :: string

text \<open>
  What the world outside answers during one invocation: one field for each place where
  the handler calls out, holding the exception raised there or the value returned.
  \<open>download_file\<close> yields, on success, what \<open>json.load\<close> makes of the downloaded file;
  \<open>tmp_name\<close> is the name of the temporary file and \<open>path_exists\<close> the answer of
  \<open>os.path.exists\<close> for it.
\<close>

record summarizer_world = environ +
  get_transcription_job_1 :: "py_error + unit"
  get_transcription_job_2 :: "py_error + unit"
  download_file :: "py_error + transcribe_output json_load"
  tmp_name :: string
  path_exists :: bool
  upload_file :: "py_error + unit"
  invoke_model :: "py_error + model_response"
  put_object :: "py_error + s3_response"

text \<open>The twelve spaces that start every continuation line of the prompt literal.\<close>

definition indent :: string where
  "indent = ''            ''"

definition prompt :: "string \<Rightarrow> string" where
  "prompt transcript_content =
     ''Summarize the following transcript into one or more clear and '' @ newline @
     indent @ ''readable paragraphs. Speakers in the transcript could be denoted by their name,'' @ newline @
     indent @ ''or by '' @ dquote @ ''spk_x'' @ dquote @ '', where `x` is a number. These represent distinct speakers in the '' @ newline @
     indent @ ''conversation. When you refer to a speaker, you may refer to them by '' @ dquote @ ''Speaker 1'' @ dquote @ newline @
     indent @ ''in the case of '' @ dquote @ ''spk_1'' @ dquote @ '', '' @ dquote @ ''Speaker 2'' @ dquote @ '' in the case of '' @ dquote @ ''spk_2'' @ dquote @ '', and so forth. '' @ newline @
     indent @ ''When you summarize, capture any ideas discussed, any hot topics you identify, '' @ newline @
     indent @ ''or any other interesting parts of the conversation between the speakers. '' @ newline @
     indent @ ''At the end of your summary, give a bullet point list of the key action '' @ newline @
     indent @ ''items, to-do'' @ quote @ ''s, and followup activities:'' @ newline @
     indent @ newline @
     indent @ transcript_content @ newline @
     indent"

definition model_id :: string where
  "model_id = ''anthropic.claude-3-sonnet-20240229-v1:0''"

definition request_body :: "string \<Rightarrow> model_request" where
  "request_body transcript_content =
     \<lparr>anthropic_version = ''bedrock-2023-05-31'',
      max_tokens = 2000,
      system = ''You are an AI assistant that excels at summarizing conversations.'',
      messages = [\<lparr>role = ''user'',
                   content = [\<lparr>block_type = ''text'', block_text = prompt transcript_content\<rparr>]\<rparr>],
      temperature = ''1.0'',
      top_p = ''0.999'',
      top_k = 40\<rparr>"

text \<open>
  The rest of the \<open>COMPLETED\<close> branch, from the invocation of the model to the end:
  \<open>except ClientError\<close> turns a client error into a result with status 400, any other
  exception propagates; \<open>put_object\<close> is called outside any \<open>try\<close>.
\<close>

definition summarize ::
    "summarizer_world \<Rightarrow> string \<Rightarrow> string \<Rightarrow> string \<Rightarrow> call list
       \<Rightarrow> call list \<times> (py_error + response)" where
  "summarize w BUCKET transcription_job_name_txt transcript_content tr =
     (let tr1 = tr @ [InvokeModel model_id (request_body transcript_content)] in
      case invoke_model w of
        Inl (ClientError msg) \<Rightarrow> (tr1, Inr \<lparr>statusCode = 400, body = msg\<rparr>)
      | Inl e \<Rightarrow> (tr1, Inl e)
      | Inr resp \<Rightarrow>
          if HTTPStatusCode resp \<noteq> 200 then
            (case response_body resp of
               Some (body_str, _) \<Rightarrow>
                 (tr1, Inr \<lparr>statusCode = HTTPStatusCode resp, body = body_str\<rparr>)
             | None \<Rightarrow>
                 (tr1, Inr \<lparr>statusCode = HTTPStatusCode resp, body = ''An unknown error occured.''\<rparr>))
          else
            (case response_body resp of
               None \<Rightarrow> (tr1, Inl (KeyError ''body''))
             | Some (_, Inl e) \<Rightarrow> (tr1, Inl e)
             | Some (_, Inr summary) \<Rightarrow>
                 (let processed_key = ''processed/'' @ transcription_job_name_txt;
                      tr2 = tr1 @ [PutObject summary BUCKET processed_key]
                  in case put_object w of
                       Inl e \<Rightarrow> (tr2, Inl e)
                     | Inr s3_resp \<Rightarrow>
                         if HTTPStatusCode s3_resp \<noteq> 200 then
                           (tr2, Inr \<lparr>statusCode = HTTPStatusCode s3_resp,
                                       body = response_str s3_resp\<rparr>)
                         else (tr2, Inr \<lparr>statusCode = 200, body = processed_key\<rparr>))))"

text \<open>
  The \<open>COMPLETED\<close> branch up to the upload of the converted transcript. The pair that
  \<open>convert_to_txt_file\<close> returns is unpacked into two names; unpacking \<open>None\<close> raises
  \<open>TypeError\<close>. The upload is guarded by \<open>except Exception\<close>, the download by
  \<open>except ClientError\<close>.
\<close>

definition completed ::
    "summarizer_world \<Rightarrow> string \<Rightarrow> string \<Rightarrow> call list
       \<Rightarrow> call list \<times> (py_error + response)" where
  "completed w BUCKET transcription_job_name tr =
     (let tr1 = tr @ [GetTranscriptionJob transcription_job_name] in
      case get_transcription_job_2 w of
        Inl e \<Rightarrow> (tr1, Inl e)
      | Inr _ \<Rightarrow>
          (let tr2 = tr1 @ [DownloadFile BUCKET
                 (''transcription/'' @ transcription_job_name @ ''.json'')
                 (''/tmp/'' @ transcription_job_name @ ''.json'')]
           in case download_file w of
                Inl (ClientError msg) \<Rightarrow>
                  (tr2, Inr \<lparr>statusCode = 400,
                     body = ''Error downloading s3://'' @ BUCKET @ ''/transcription/'' @
                       transcription_job_name @ ''.json: '' @ msg\<rparr>)
              | Inl e \<Rightarrow> (tr2, Inl e)
              | Inr loaded \<Rightarrow>
                  (case convert_to_txt_file (tmp_name w) loaded of
                     Inl e \<Rightarrow> (tr2, Inl e)
                   | Inr None \<Rightarrow>
                       (tr2, Inl (TypeError ''cannot unpack non-iterable NoneType object''))
                   | Inr (Some (transcript_content, transcript_output_file)) \<Rightarrow>
                       if transcript_output_file = [] \<or> \<not> path_exists w then
                         (tr2, Inr \<lparr>statusCode = 400,
                            body = ''Error converting transcription to txt file''\<rparr>)
                       else
                         (let transcription_job_name_txt = transcription_job_name @ ''.txt'';
                              tr3 = tr2 @ [UploadFile transcript_output_file BUCKET
                                (''transcription/'' @ transcription_job_name_txt)]
                          in case upload_file w of
                               Inl e \<Rightarrow>
                                 (tr3, Inr \<lparr>statusCode = 400,
                                    body = ''Error uploading converted file to s3://'' @ BUCKET @
                                      ''/transcription/'' @ transcription_job_name_txt @ '': '' @
                                      str_of_error e\<rparr>)
                             | Inr _ \<Rightarrow>
                                 summarize w BUCKET transcription_job_name_txt
                                   transcript_content tr3))))"

text \<open>
  \<open>lambda_handler(event, context)\<close> of the summarizer. \<open>os.environ["OUTPUT_BUCKET"]\<close> is
  read first, then the job is looked up once before the status is inspected.
\<close>

definition inference_lambda_handler ::
    "summarizer_world \<Rightarrow> job_event \<Rightarrow> call list \<times> (py_error + response)" where
  "inference_lambda_handler w event =
     (case OUTPUT_BUCKET w of
        None \<Rightarrow> ([], Inl (KeyError ''OUTPUT_BUCKET''))
      | Some BUCKET \<Rightarrow>
          (case detail event of
             None \<Rightarrow> ([], Inr \<lparr>statusCode = 500, body = ''Invalid event received.''\<rparr>)
           | Some d \<Rightarrow>
               (let transcription_job_name = TranscriptionJobName d;
                    tr = [GetTranscriptionJob transcription_job_name]
                in case get_transcription_job_1 w of
                     Inl e \<Rightarrow> (tr, Inl e)
                   | Inr _ \<Rightarrow>
                       if TranscriptionJobStatus d = ''COMPLETED'' then
                         completed w BUCKET transcription_job_name tr
                       else if TranscriptionJobStatus d = ''FAILED'' then
                         (tr, Inr \<lparr>statusCode = 400,
                            body = ''Unable to process, job '' @ transcription_job_name @
                              '' failed.''\<rparr>)
                       else
                         (tr, Inr \<lparr>statusCode = 500,
                            body = ''Transcription job '' @ transcription_job_name @
                              '' is not completed or failed.''\<rparr>))))"

section \<open>The ingest trigger (\<open>s3-trigger-transcribe/lambda_function.py\<close>)\<close>

text \<open>\<open>event["Records"][0]["s3"]\<close>: the bucket's name and the object's key.\<close>

record s3_event =
  bucket_name :: string
  object_key :: string

text \<open>The keyword arguments of \<open>start_transcription_job\<close>; \<open>JobName\<close> is \<open>TranscriptionJobName\<close>.\<close>

record transcription_settings =
  ShowSpeakerLabels :: bool
  MaxSpeakerLabels :: int
  ChannelIdentification :: bool
  ShowAlternatives :: bool

record transcription_request =
  JobName :: string
  MediaFileUri :: string
  MediaFormat :: string
  IdentifyMultipleLanguages :: bool
  Settings :: transcription_settings
  OutputBucketName :: string
  OutputKey :: string

datatype trigger_call = StartTranscriptionJob transcription_request

text \<open>
  The world of one invocation of the trigger: the environment, the random source and
  what \<open>start_transcription_job\<close> answers (an exception or the HTTP status code of the
  response). \<open>random_draw i\<close> stands for the \<open>i\<close>-th random number drawn.
\<close>

record trigger_world = environ +
  random_draw :: "nat \<Rightarrow> nat"
  start_transcription_job :: "py_error + int"

definition ascii_lowercase :: string where
  "ascii_lowercase = ''abcdefghijklmnopqrstuvwxyz''"

definition digits :: string where
  "digits = ''0123456789''"

text \<open>
  \<open>random.choices(population, k=k)\<close>: \<open>k\<close> elements drawn with replacement, each at the
  index \<open>floor(random() * len(population))\<close>, which ranges over the indices of the
  population; the \<open>i\<close>-th draw is reduced modulo the length to give that index.
\<close>

definition random_choices :: "'a list \<Rightarrow> nat \<Rightarrow> (nat \<Rightarrow> nat) \<Rightarrow> 'a list" where
  "random_choices population k draw =
     map (\<lambda>i. population ! (draw i mod length population)) [0..<k]"

definition job_id_suffix :: "(nat \<Rightarrow> nat) \<Rightarrow> string" where
  "job_id_suffix draw = random_choices (ascii_lowercase @ digits) 12 draw"

definition job_name :: "(nat \<Rightarrow> nat) \<Rightarrow> string" where
  "job_name draw = ''summarizer-'' @ job_id_suffix draw"

text \<open>\<open>str.rfind\<close> for a single character: the last index where it occurs, or \<open>-1\<close>.\<close>

definition rfind :: "string \<Rightarrow> char \<Rightarrow> int" where
  "rfind p c =
     (if c \<in> set p then int (length p) - 1 - int (length (takeWhile (\<lambda>x. x \<noteq> c) (rev p)))
      else - 1)"

text \<open>
  The loop of \<open>genericpath._splitext\<close> over the characters between the last separator and
  the last dot: it succeeds at the first character that is not a dot.
\<close>

fun has_non_dot :: "string \<Rightarrow> bool" where
  "has_non_dot [] = False"
| "has_non_dot (c # cs) = (if c \<noteq> CHR ''.'' then True else has_non_dot cs)"

text \<open>
  \<open>os.path.splitext\<close> (\<open>posixpath\<close>): the extension starts at the last dot, when that dot
  comes after the last \<open>/\<close> and some character of the file name before it is not a dot.
\<close>

definition splitext :: "string \<Rightarrow> string \<times> string" where
  "splitext p =
     (let sepIndex = rfind p CHR ''/'';
          dotIndex = rfind p CHR ''.''
      in if dotIndex > sepIndex \<and>
            has_non_dot (take (nat dotIndex - nat (sepIndex + 1)) (drop (nat (sepIndex + 1)) p))
         then (take (nat dotIndex) p, drop (nat dotIndex) p)
         else (p, []))"

text \<open>
  \<open>lambda_handler(event, context)\<close> of the trigger. Everything from the reading of
  \<open>OUTPUT_BUCKET\<close> on is inside \<open>try\<close> ... \<open>except Exception\<close>, which answers 500.
\<close>

definition trigger_lambda_handler ::
    "trigger_world \<Rightarrow> s3_event \<Rightarrow> trigger_call list \<times> (py_error + response)" where
  "trigger_lambda_handler w event =
     (let bucket = bucket_name event;
          key = object_key event
      in if key = ''source/'' then
           ([], Inr \<lparr>statusCode = 200, body = ''Source folder, skipping''\<rparr>)
         else
           (let extension = snd (splitext key) in
            if extension = [] then
              ([], Inr \<lparr>statusCode = 400, body = ''invalid file name '' @ key\<rparr>)
            else
              (let media_format = drop 1 extension;
                   job_uri = ''s3://'' @ bucket @ ''/'' @ key
               in case OUTPUT_BUCKET w of
                    None \<Rightarrow>
                      ([], Inr \<lparr>statusCode = 500,
                         body = str_of_error (KeyError ''OUTPUT_BUCKET'')\<rparr>)
                  | Some output_bucket \<Rightarrow>
                      (let tr = [StartTranscriptionJob
                             \<lparr>JobName = job_name (random_draw w),
                              MediaFileUri = job_uri,
                              MediaFormat = media_format,
                              IdentifyMultipleLanguages = True,
                              Settings = \<lparr>ShowSpeakerLabels = True, MaxSpeakerLabels = 10,
                                ChannelIdentification = False, ShowAlternatives = False\<rparr>,
                              OutputBucketName = output_bucket,
                              OutputKey = ''transcription/'' @ job_name (random_draw w) @ ''.json''\<rparr>]
                       in case start_transcription_job w of
                            Inl e \<Rightarrow> (tr, Inr \<lparr>statusCode = 500, body = str_of_error e\<rparr>)
                          | Inr status \<Rightarrow>
                              if status \<noteq> 200 then
                                (tr, Inr \<lparr>statusCode = status, body = job_name (random_draw w)\<rparr>)
                              else
                                (tr, Inr \<lparr>statusCode = 200, body = job_name (random_draw w)\<rparr>)))))"

text \<open>
  The event rule of \<open>summarizer_stack.py\<close> matches on the job name with
  \<open>{"prefix": "summarizer-"}\<close>.
\<close>

definition job_name_filter :: "string \<Rightarrow> bool" where
  "job_name_filter name = prefix ''summarizer-'' name"

section \<open>Properties of the normalizer\<close>

subsection \<open>Auxiliary facts about the loop\<close>

text \<open>The runs counted by \<open>count_runs\<close> are the blocks that \<open>remdups_adj\<close> keeps.\<close>

lemma count_runs_remdups_adj: "count_runs ls = length (remdups_adj ls)"
  by (induction ls rule: count_runs.induct) auto

text \<open>
  Once a pronunciation item has been read, the accumulated text stays non-empty and the
  lines emitted so far, with the one still pending, are as many as the runs seen.
\<close>

lemma loop_started:
  assumes "\<forall>c l. Pronunciation c l \<in> set its \<longrightarrow> c \<noteq> []"
    and "current_text s \<noteq> []"
    and "current_speaker s = Some sp"
    and "speaker_label s = Some sp"
  shows "current_text (loop s its) \<noteq> [] \<and>
         (\<exists>sp'. speaker_label (loop s its) = Some sp') \<and>
         length (output_lines (loop s its)) + 1
           = length (output_lines s) + count_runs (sp # speaker_labels its)"
  using assms
proof (induction its arbitrary: s sp)
  case Nil
  then show ?case by simp
next
  case (Cons it its)
  show ?case
  proof (cases it)
    case (Pronunciation c l)
    have c: "c \<noteq> []" using Cons.prems(1) Pronunciation by auto
    have rest: "\<forall>c l. Pronunciation c l \<in> set its \<longrightarrow> c \<noteq> []"
      using Cons.prems(1) by auto
    show ?thesis
    proof (cases "l = sp")
      case True
      let ?s' = "loop_body s it"
      have "current_text ?s' \<noteq> []" "current_speaker ?s' = Some sp" "speaker_label ?s' = Some sp"
        "output_lines ?s' = output_lines s"
        using Cons.prems True Pronunciation by (simp_all add: Let_def)
      with Cons.IH[OF rest, of ?s' sp] show ?thesis
        using True Pronunciation by simp
    next
      case False
      let ?s' = "loop_body s it"
      have "current_text ?s' \<noteq> []" "current_speaker ?s' = Some l" "speaker_label ?s' = Some l"
        "length (output_lines ?s') = length (output_lines s) + 1"
        using Cons.prems False Pronunciation c by (simp_all add: Let_def emit_def)
      with Cons.IH[OF rest, of ?s' l] show ?thesis
        using False Pronunciation by simp
    qed
  next
    case (Punctuation c)
    have rest: "\<forall>c l. Pronunciation c l \<in> set its \<longrightarrow> c \<noteq> []"
      using Cons.prems(1) by auto
    let ?s' = "loop_body s it"
    have "current_text ?s' \<noteq> []" "current_speaker ?s' = Some sp" "speaker_label ?s' = Some sp"
        "output_lines ?s' = output_lines s"
      using Cons.prems Punctuation by simp_all
    with Cons.IH[OF rest, of ?s' sp] show ?thesis
      using Punctuation by simp
  next
    case OtherItem
    have rest: "\<forall>c l. Pronunciation c l \<in> set its \<longrightarrow> c \<noteq> []"
      using Cons.prems(1) by auto
    from Cons.IH[OF rest Cons.prems(2) Cons.prems(3) Cons.prems(4)] show ?thesis
      using OtherItem by simp
  qed
qed

lemma loop_init:
  assumes "no_leading_punctuation its"
    and "\<forall>c l. Pronunciation c l \<in> set its \<longrightarrow> c \<noteq> []"
  shows "(speaker_labels its = [] \<and> loop init_locals its = init_locals) \<or>
         (current_text (loop init_locals its) \<noteq> [] \<and>
          (\<exists>sp. speaker_label (loop init_locals its) = Some sp) \<and>
          length (output_lines (loop init_locals its)) + 1 = count_runs (speaker_labels its))"
  using assms
proof (induction its)
  case Nil
  then show ?case by simp
next
  case (Cons it its)
  show ?case
  proof (cases it)
    case (Pronunciation c l)
    have c: "c \<noteq> []" using Cons.prems(2) Pronunciation by auto
    have rest: "\<forall>c l. Pronunciation c l \<in> set its \<longrightarrow> c \<noteq> []"
      using Cons.prems(2) by auto
    let ?s' = "loop_body init_locals it"
    have "current_text ?s' \<noteq> []" "current_speaker ?s' = Some l" "speaker_label ?s' = Some l"
        "output_lines ?s' = []"
      using Pronunciation c by (simp_all add: Let_def init_locals_def)
    with loop_started[OF rest, of ?s' l] show ?thesis
      using Pronunciation by simp
  next
    case (Punctuation c)
    with Cons.prems(1) show ?thesis by simp
  next
    case OtherItem
    with Cons show ?thesis by simp
  qed
qed

text \<open>After the loop, \<open>speaker_label\<close> is the label of the last pronunciation item.\<close>

lemma speaker_label_loop:
  "speaker_label (loop s its) =
     (if speaker_labels its = [] then speaker_label s else Some (last (speaker_labels its)))"
proof (induction its arbitrary: s)
  case Nil
  then show ?case by simp
next
  case (Cons it its)
  then show ?case by (cases it) (simp_all add: Let_def emit_def)
qed

text \<open>Without pronunciation items the loop only appends punctuation to the text.\<close>

lemma loop_no_pronunciation:
  assumes "\<forall>c l. Pronunciation c l \<notin> set its"
  shows "loop s its = s\<lparr>current_text := current_text s @ punctuation_text its\<rparr>"
  using assms
proof (induction its arbitrary: s)
  case Nil
  then show ?case by simp
next
  case (Cons it its)
  then show ?case by (cases it) auto
qed

lemma punctuation_text_nonempty:
  "Punctuation c \<in> set its \<Longrightarrow> c \<noteq> [] \<Longrightarrow> punctuation_text its \<noteq> []"
proof (induction its)
  case Nil
  then show ?case by simp
next
  case (Cons it its)
  then show ?case by (cases it) auto
qed

subsection \<open>Line count and speaker runs\<close>

text \<open>
  C1, as amended: for every sequence of items in which no punctuation item stands before
  the first pronunciation item and every pronunciation item has non-empty content, the
  normalizer returns, and the number of lines it emits equals the number of maximal runs
  of consecutive pronunciation items that share a speaker label.
\<close>

theorem line_count_runs:
  assumes "no_leading_punctuation its"
    and "\<forall>c l. Pronunciation c l \<in> set its \<longrightarrow> c \<noteq> []"
  shows "\<exists>s. normalize its = Inr s \<and> length (output_lines s) = speaker_runs its"
  using loop_init[OF assms]
  by (auto simp: normalize_def final_line_def speaker_runs_def emit_def init_locals_def)

theorem line_count_runs_witness:
  "no_leading_punctuation [Pronunciation ''Hello'' ''spk_0'', Punctuation ''.'', Pronunciation ''world'' ''spk_1'']
   \<and> (\<exists>s. normalize [Pronunciation ''Hello'' ''spk_0'', Punctuation ''.'', Pronunciation ''world'' ''spk_1''] = Inr s \<and> length (output_lines s) = 2)"
  using line_count_runs[of "[Pronunciation ''Hello'' ''spk_0'', Punctuation ''.'', Pronunciation ''world'' ''spk_1'']"]
  by (simp add: speaker_runs_def numeral_2_eq_2)

text \<open>
  The claim as stated fails on two inputs. A punctuation item before the first
  pronunciation item gets a line of its own, labelled \<open>None\<close>: two lines for one run. A
  pronunciation item with empty content leaves the text empty, and no line is emitted for
  its run.
\<close>

theorem line_count_counterexample:
  "map_sum id output_lines (normalize [Punctuation ''.'', Pronunciation ''Hi'' ''spk_0''])
     = Inr [''None: .'' @ [CHR 0x0A], ''spk_0: Hi'' @ [CHR 0x0A]]
   \<and> speaker_runs [Punctuation ''.'', Pronunciation ''Hi'' ''spk_0''] = 1
   \<and> map_sum id output_lines (normalize [Pronunciation [] ''spk_0'']) = Inr []
   \<and> speaker_runs [Pronunciation [] ''spk_0''] = 1"
  by (simp add: normalize_def final_line_def init_locals_def emit_def format_line_def
      strip_def isspace_def newline_def speaker_runs_def)

subsection \<open>The final line\<close>

text \<open>
  What the statements after the loop do when the accumulated text is non-empty. Where the
  sequence has a pronunciation item, the final line is the label of the last one, then
  \<open>": "\<close>, then the trimmed text and a newline. Where it has none, \<open>speaker_label\<close> is
  still unbound and the statement raises: no final line is emitted.
\<close>

lemma final_line_cases:
  assumes "current_text (loop init_locals its) \<noteq> []"
  shows "case last_seen_speaker its of
           None \<Rightarrow> normalize its = Inl (NameError ''speaker_label'')
         | Some label \<Rightarrow>
             (\<exists>s. normalize its = Inr s \<and>
                  output_lines s = output_lines (loop init_locals its) @
                    [label @ '': '' @ strip (current_text (loop init_locals its)) @ [CHR 0x0A]])"
  using assms speaker_label_loop[of init_locals its]
  by (simp add: last_seen_speaker_def normalize_def final_line_def emit_def format_line_def
      newline_def init_locals_def)

text \<open>An instance with a speaker change, where trimming removes a trailing space.\<close>

lemma final_line_cases_example:
  "current_text (loop init_locals [Pronunciation ''Hello'' ''spk_0'', Punctuation ''.'',
      Pronunciation ''world'' ''spk_1'', Punctuation ''! '']) = ''world! ''
   \<and> last_seen_speaker [Pronunciation ''Hello'' ''spk_0'', Punctuation ''.'',
      Pronunciation ''world'' ''spk_1'', Punctuation ''! ''] = Some ''spk_1''
   \<and> (\<exists>s. normalize [Pronunciation ''Hello'' ''spk_0'', Punctuation ''.'',
          Pronunciation ''world'' ''spk_1'', Punctuation ''! ''] = Inr s \<and>
        output_lines s = [''spk_0: Hello.'' @ [CHR 0x0A], ''spk_1: world!'' @ [CHR 0x0A]])"
  using final_line_cases[of "[Pronunciation ''Hello'' ''spk_0'', Punctuation ''.'',
      Pronunciation ''world'' ''spk_1'', Punctuation ''! '']"]
  by (simp add: last_seen_speaker_def init_locals_def emit_def format_line_def strip_def
      isspace_def newline_def)

text \<open>
  C3: the claim says that whenever the loop ends with non-empty accumulated text, a final
  line is emitted, made of the last seen speaker label and the trimmed text. On the single
  punctuation item "." the loop ends with the text ".", no speaker label has been seen,
  and the function emits no final line: reading the unbound \<open>speaker_label\<close> raises
  \<open>NameError\<close>, which leaves \<open>convert_to_txt_file\<close>.
\<close>

theorem final_line_unbound_speaker_label:
  "current_text (loop init_locals [Punctuation ''.'']) = ''.''
   \<and> last_seen_speaker [Punctuation ''.''] = None
   \<and> normalize [Punctuation ''.''] = Inl (NameError ''speaker_label'')
   \<and> convert_to_txt_file ''/tmp/tmpab12cd34.txt''
         (Loaded \<lparr>results = \<lparr>items = Some [Punctuation ''.'']\<rparr>\<rparr>)
       = Inl (NameError ''speaker_label'')"
  by (simp add: convert_to_txt_file_def normalize_def final_line_def init_locals_def
      last_seen_speaker_def)

text \<open>
  C4: on the items pronunciation "Hello" of spk_0, punctuation ".", pronunciation "world"
  of spk_1, the returned transcript is "spk_0: Hello.\nspk_1: world\n".
\<close>

theorem convert_hello_world:
  "convert_to_txt_file path
     (Loaded \<lparr>results = \<lparr>items = Some [Pronunciation ''Hello'' ''spk_0'', Punctuation ''.'',
        Pronunciation ''world'' ''spk_1'']\<rparr>\<rparr>)
   = Inr (Some (''spk_0: Hello.'' @ [CHR 0x0A] @ ''spk_1: world'' @ [CHR 0x0A], path))"
  by (simp add: convert_to_txt_file_def normalize_def final_line_def init_locals_def
      emit_def format_line_def strip_def isspace_def newline_def)

subsection \<open>Punctuation without pronunciation\<close>

text \<open>
  C5, as amended: for every sequence of items that has no pronunciation item and at least
  one punctuation item with non-empty content, \<open>convert_to_txt_file\<close> raises
  \<open>NameError\<close> for \<open>speaker_label\<close>: it returns neither a pair nor \<open>None\<close>.
\<close>

theorem punctuation_only_NameError:
  assumes "\<forall>c l. Pronunciation c l \<notin> set its"
    and "Punctuation c \<in> set its" and "c \<noteq> []"
  shows "convert_to_txt_file path (Loaded \<lparr>results = \<lparr>items = Some its\<rparr>\<rparr>)
           = Inl (NameError ''speaker_label'')"
  using loop_no_pronunciation[OF assms(1), of init_locals] punctuation_text_nonempty[OF assms(2,3)]
  by (simp add: convert_to_txt_file_def normalize_def final_line_def init_locals_def)

theorem punctuation_only_NameError_witness:
  "convert_to_txt_file ''/tmp/tmpab12cd34.txt''
     (Loaded \<lparr>results = \<lparr>items = Some [Punctuation ''.'', OtherItem, Punctuation ''?'']\<rparr>\<rparr>)
   = Inl (NameError ''speaker_label'')"
  using punctuation_only_NameError[of "[Punctuation ''.'', OtherItem, Punctuation ''?'']" "''.''"
      "''/tmp/tmpab12cd34.txt''"]
  by simp

text \<open>
  The claim as stated fails when the punctuation has empty content: the text stays empty,
  the final line is skipped, and the function returns the empty transcript.
\<close>

theorem punctuation_only_counterexample:
  "convert_to_txt_file ''/tmp/tmpab12cd34.txt''
     (Loaded \<lparr>results = \<lparr>items = Some [Punctuation []]\<rparr>\<rparr>)
   = Inr (Some ([], ''/tmp/tmpab12cd34.txt''))"
  by (simp add: convert_to_txt_file_def normalize_def final_line_def init_locals_def)

subsection \<open>Empty input and determinism\<close>

text \<open>
  C6: an empty list of items, or none at all, yields the empty string as the transcript
  content, and no exception.
\<close>

theorem convert_empty_items:
  "convert_to_txt_file path (Loaded \<lparr>results = \<lparr>items = Some []\<rparr>\<rparr>) = Inr (Some ([], path))
   \<and> convert_to_txt_file path (Loaded \<lparr>results = \<lparr>items = None\<rparr>\<rparr>) = Inr (Some ([], path))"
  by (simp add: convert_to_txt_file_def normalize_def final_line_def init_locals_def)

text \<open>
  C10: the transcript content is a function of the parsed input alone: two runs on the
  same input return the same content (or raise the same exception), whatever names the
  temporary files get.
\<close>

theorem convert_deterministic:
  "returned_content (convert_to_txt_file path1 loaded)
     = returned_content (convert_to_txt_file path2 loaded)"
  by (simp add: returned_content_def convert_to_txt_file_def
      split: json_load.split sum.split)

section \<open>Properties of the summarizer handler\<close>

text \<open>
  C2: a transcript file that is not valid JSON. \<open>convert_to_txt_file\<close> returns \<open>None\<close>,
  the handler unpacks it into two names, and the \<open>TypeError\<close> leaves the handler: no
  structured result is returned.
\<close>

theorem not_json_uncaught_TypeError:
  assumes "OUTPUT_BUCKET w = Some BUCKET"
    and "detail event = Some d"
    and "TranscriptionJobStatus d = ''COMPLETED''"
    and "get_transcription_job_1 w = Inr ()"
    and "get_transcription_job_2 w = Inr ()"
    and "download_file w = Inr JSONDecodeError"
  shows "inference_lambda_handler w event =
           ([GetTranscriptionJob (TranscriptionJobName d),
             GetTranscriptionJob (TranscriptionJobName d),
             DownloadFile BUCKET (''transcription/'' @ TranscriptionJobName d @ ''.json'')
               (''/tmp/'' @ TranscriptionJobName d @ ''.json'')],
            Inl (TypeError ''cannot unpack non-iterable NoneType object''))"
  using assms
  by (simp add: inference_lambda_handler_def completed_def convert_to_txt_file_def Let_def)

theorem not_json_uncaught_TypeError_witness:
  "snd (inference_lambda_handler
     \<lparr>OUTPUT_BUCKET = Some ''out'', get_transcription_job_1 = Inr (),
      get_transcription_job_2 = Inr (), download_file = Inr JSONDecodeError,
      tmp_name = ''/tmp/tmpab12cd34.txt'', path_exists = True, upload_file = Inr (),
      invoke_model = Inl (ClientError ''unreachable''),
      put_object = Inl (ClientError ''unreachable'')\<rparr>
     \<lparr>detail = Some \<lparr>TranscriptionJobName = ''summarizer-lmrca78v3tug'',
        TranscriptionJobStatus = ''COMPLETED''\<rparr>\<rparr>)
   = Inl (TypeError ''cannot unpack non-iterable NoneType object'')"
  using not_json_uncaught_TypeError[of
      "\<lparr>OUTPUT_BUCKET = Some ''out'', get_transcription_job_1 = Inr (),
        get_transcription_job_2 = Inr (), download_file = Inr JSONDecodeError,
        tmp_name = ''/tmp/tmpab12cd34.txt'', path_exists = True, upload_file = Inr (),
        invoke_model = Inl (ClientError ''unreachable''),
        put_object = Inl (ClientError ''unreachable'')\<rparr>"
      "''out''"
      "\<lparr>detail = Some \<lparr>TranscriptionJobName = ''summarizer-lmrca78v3tug'',
        TranscriptionJobStatus = ''COMPLETED''\<rparr>\<rparr>"
      "\<lparr>TranscriptionJobName = ''summarizer-lmrca78v3tug'',
        TranscriptionJobStatus = ''COMPLETED''\<rparr>"]
  by simp

text \<open>
  What the handler does on an event whose status is \<open>FAILED\<close>: the only call it makes is
  the lookup of the job, so it never downloads the transcript, uploads anything or invokes
  the model; and when \<open>OUTPUT_BUCKET\<close> is set and the lookup returns, it answers with
  status 400 and the message that the job failed.
\<close>

lemma failed_job_no_further_action:
  assumes "detail event = Some d" and "TranscriptionJobStatus d = ''FAILED''"
  shows "set (fst (inference_lambda_handler w event))
           \<subseteq> {GetTranscriptionJob (TranscriptionJobName d)}
         \<and> (OUTPUT_BUCKET w \<noteq> None \<longrightarrow> get_transcription_job_1 w = Inr () \<longrightarrow>
              inference_lambda_handler w event =
                ([GetTranscriptionJob (TranscriptionJobName d)],
                 Inr \<lparr>statusCode = 400,
                   body = ''Unable to process, job '' @ TranscriptionJobName d @ '' failed.''\<rparr>))"
  using assms
  by (auto simp: inference_lambda_handler_def Let_def split: option.splits sum.splits)

lemma failed_job_example:
  "inference_lambda_handler
     \<lparr>OUTPUT_BUCKET = Some ''out'', get_transcription_job_1 = Inr (),
      get_transcription_job_2 = Inr (), download_file = Inr JSONDecodeError,
      tmp_name = ''/tmp/tmpab12cd34.txt'', path_exists = True, upload_file = Inr (),
      invoke_model = Inl (ClientError ''unreachable''),
      put_object = Inl (ClientError ''unreachable'')\<rparr>
     \<lparr>detail = Some \<lparr>TranscriptionJobName = ''summarizer-lmrca78v3tug'',
        TranscriptionJobStatus = ''FAILED''\<rparr>\<rparr>
   = ([GetTranscriptionJob ''summarizer-lmrca78v3tug''],
      Inr \<lparr>statusCode = 400,
        body = ''Unable to process, job summarizer-lmrca78v3tug failed.''\<rparr>)"
  using failed_job_no_further_action[of
      "\<lparr>detail = Some \<lparr>TranscriptionJobName = ''summarizer-lmrca78v3tug'',
        TranscriptionJobStatus = ''FAILED''\<rparr>\<rparr>"
      "\<lparr>TranscriptionJobName = ''summarizer-lmrca78v3tug'',
        TranscriptionJobStatus = ''FAILED''\<rparr>"
      "\<lparr>OUTPUT_BUCKET = Some ''out'', get_transcription_job_1 = Inr (),
        get_transcription_job_2 = Inr (), download_file = Inr JSONDecodeError,
        tmp_name = ''/tmp/tmpab12cd34.txt'', path_exists = True, upload_file = Inr (),
        invoke_model = Inl (ClientError ''unreachable''),
        put_object = Inl (ClientError ''unreachable'')\<rparr>"]
  by simp

text \<open>
  C7: the claim says that the handler reports failure for every event whose status is
  \<open>FAILED\<close>. The lookup of the job stands before the inspection of the status and outside
  any \<open>try\<close>, and its result is never read; when it raises, the exception leaves the
  handler and no failure result is returned, while the download, the upload and the
  invocation of the model turn their exceptions into structured results.
\<close>

theorem failed_job_lookup_uncaught:
  assumes "OUTPUT_BUCKET w = Some BUCKET"
    and "detail event = Some d"
    and "TranscriptionJobStatus d = ''FAILED''"
    and "get_transcription_job_1 w = Inl e"
  shows "inference_lambda_handler w event =
           ([GetTranscriptionJob (TranscriptionJobName d)], Inl e)"
  using assms by (simp add: inference_lambda_handler_def)

theorem failed_job_lookup_uncaught_witness:
  "inference_lambda_handler
     \<lparr>OUTPUT_BUCKET = Some ''out'',
      get_transcription_job_1 = Inl (ClientError ''Rate exceeded''),
      get_transcription_job_2 = Inr (), download_file = Inr JSONDecodeError,
      tmp_name = ''/tmp/tmpab12cd34.txt'', path_exists = True, upload_file = Inr (),
      invoke_model = Inl (ClientError ''unreachable''),
      put_object = Inl (ClientError ''unreachable'')\<rparr>
     \<lparr>detail = Some \<lparr>TranscriptionJobName = ''summarizer-lmrca78v3tug'',
        TranscriptionJobStatus = ''FAILED''\<rparr>\<rparr>
   = ([GetTranscriptionJob ''summarizer-lmrca78v3tug''], Inl (ClientError ''Rate exceeded''))"
  using failed_job_lookup_uncaught[of
      "\<lparr>OUTPUT_BUCKET = Some ''out'',
        get_transcription_job_1 = Inl (ClientError ''Rate exceeded''),
        get_transcription_job_2 = Inr (), download_file = Inr JSONDecodeError,
        tmp_name = ''/tmp/tmpab12cd34.txt'', path_exists = True, upload_file = Inr (),
        invoke_model = Inl (ClientError ''unreachable''),
        put_object = Inl (ClientError ''unreachable'')\<rparr>"
      "''out''"
      "\<lparr>detail = Some \<lparr>TranscriptionJobName = ''summarizer-lmrca78v3tug'',
        TranscriptionJobStatus = ''FAILED''\<rparr>\<rparr>"
      "\<lparr>TranscriptionJobName = ''summarizer-lmrca78v3tug'',
        TranscriptionJobStatus = ''FAILED''\<rparr>"
      "ClientError ''Rate exceeded''"]
  by simp

section \<open>Properties of the ingest trigger\<close>

lemma length_alphabet: "length (ascii_lowercase @ digits) = 36"
  by (simp add: ascii_lowercase_def digits_def)

lemma job_id_suffix_length: "length (job_id_suffix draw) = 12"
  by (simp add: job_id_suffix_def random_choices_def)

lemma job_id_suffix_alphabet: "set (job_id_suffix draw) \<subseteq> set (ascii_lowercase @ digits)"
proof
  fix c assume "c \<in> set (job_id_suffix draw)"
  then obtain i where "c = (ascii_lowercase @ digits) ! (draw i mod length (ascii_lowercase @ digits))"
    by (auto simp: job_id_suffix_def random_choices_def)
  moreover have "draw i mod length (ascii_lowercase @ digits) < length (ascii_lowercase @ digits)"
    by (rule mod_less_divisor) (simp add: ascii_lowercase_def)
  ultimately show "c \<in> set (ascii_lowercase @ digits)"
    using nth_mem by blast
qed

text \<open>
  C8, as amended: for every event whose key is not the watched folder \<open>source/\<close> itself
  and has no file extension, the trigger answers with status 400 and the message
  \<open>invalid file name\<close> followed by the key, and submits no transcription job.
\<close>

theorem no_extension_invalid_input:
  assumes "object_key event \<noteq> ''source/''" and "snd (splitext (object_key event)) = []"
  shows "trigger_lambda_handler w event =
           ([], Inr \<lparr>statusCode = 400, body = ''invalid file name '' @ object_key event\<rparr>)"
  using assms by (simp add: trigger_lambda_handler_def Let_def)

theorem no_extension_invalid_input_witness:
  "trigger_lambda_handler
     \<lparr>OUTPUT_BUCKET = Some ''out'', random_draw = (\<lambda>i. 7 * i + 100),
      start_transcription_job = Inr 200\<rparr>
     \<lparr>bucket_name = ''in'', object_key = ''source/clip''\<rparr>
   = ([], Inr \<lparr>statusCode = 400, body = ''invalid file name source/clip''\<rparr>)"
  using no_extension_invalid_input[of "\<lparr>bucket_name = ''in'', object_key = ''source/clip''\<rparr>"
      "\<lparr>OUTPUT_BUCKET = Some ''out'', random_draw = (\<lambda>i. 7 * i + 100),
        start_transcription_job = Inr 200\<rparr>"]
  by (simp add: splitext_def rfind_def)

text \<open>
  The claim as stated fails on the key \<open>source/\<close>: it has no extension, and the trigger
  answers with status 200.
\<close>

theorem no_extension_counterexample:
  "snd (splitext ''source/'') = []
   \<and> trigger_lambda_handler
       \<lparr>OUTPUT_BUCKET = Some ''out'', random_draw = (\<lambda>i. 7 * i + 100),
        start_transcription_job = Inr 200\<rparr>
       \<lparr>bucket_name = ''in'', object_key = ''source/''\<rparr>
     = ([], Inr \<lparr>statusCode = 200, body = ''Source folder, skipping''\<rparr>)"
  by (simp add: trigger_lambda_handler_def splitext_def rfind_def)

text \<open>
  C9: every job name the trigger generates is \<open>summarizer-\<close> followed by exactly 12
  characters drawn from the lowercase letters and the digits, so it passes the prefix
  filter of the event rule; and every job the trigger submits carries such a name.
\<close>

theorem job_name_format:
  "(\<exists>suffix. job_name draw = ''summarizer-'' @ suffix \<and> length suffix = 12 \<and>
      set suffix \<subseteq> set (ascii_lowercase @ digits))
   \<and> job_name_filter (job_name draw)
   \<and> (\<forall>req. StartTranscriptionJob req \<in> set (fst (trigger_lambda_handler w event)) \<longrightarrow>
         JobName req = job_name (random_draw w))"
proof (intro conjI)
  show "\<exists>suffix. job_name draw = ''summarizer-'' @ suffix \<and> length suffix = 12 \<and>
      set suffix \<subseteq> set (ascii_lowercase @ digits)"
    using job_id_suffix_length job_id_suffix_alphabet by (auto simp: job_name_def)
  show "job_name_filter (job_name draw)"
    by (simp add: job_name_filter_def job_name_def)
  show "\<forall>req. StartTranscriptionJob req \<in> set (fst (trigger_lambda_handler w event)) \<longrightarrow>
         JobName req = job_name (random_draw w)"
    by (auto simp: trigger_lambda_handler_def Let_def split: if_splits option.splits sum.splits)
qed

theorem job_name_format_witness:
  "StartTranscriptionJob
     \<lparr>JobName = ''summarizer-29gnu18fmt07'', MediaFileUri = ''s3://in/source/clip.mp3'',
      MediaFormat = ''mp3'', IdentifyMultipleLanguages = True,
      Settings = \<lparr>ShowSpeakerLabels = True, MaxSpeakerLabels = 10,
        ChannelIdentification = False, ShowAlternatives = False\<rparr>,
      OutputBucketName = ''out'', OutputKey = ''transcription/summarizer-29gnu18fmt07.json''\<rparr>
     \<in> set (fst (trigger_lambda_handler
         \<lparr>OUTPUT_BUCKET = Some ''out'', random_draw = (\<lambda>i. 7 * i + 100),
          start_transcription_job = Inr 200\<rparr>
         \<lparr>bucket_name = ''in'', object_key = ''source/clip.mp3''\<rparr>))
   \<and> job_name (\<lambda>i. 7 * i + 100) = ''summarizer-29gnu18fmt07''
   \<and> job_name_filter ''summarizer-29gnu18fmt07''"
proof -
  let ?w = "\<lparr>OUTPUT_BUCKET = Some ''out'', random_draw = (\<lambda>i. 7 * i + 100),
          start_transcription_job = Inr 200\<rparr>"
  let ?e = "\<lparr>bucket_name = ''in'', object_key = ''source/clip.mp3''\<rparr>"
  let ?n = "job_name (\<lambda>i. 7 * i + 100)"
  let ?req = "\<lparr>JobName = ?n, MediaFileUri = ''s3://in/source/clip.mp3'',
      MediaFormat = ''mp3'', IdentifyMultipleLanguages = True,
      Settings = \<lparr>ShowSpeakerLabels = True, MaxSpeakerLabels = 10,
        ChannelIdentification = False, ShowAlternatives = False\<rparr>,
      OutputBucketName = ''out'', OutputKey = ''transcription/'' @ ?n @ ''.json''\<rparr>"
  have n: "?n = ''summarizer-29gnu18fmt07''"
    by code_simp
  have e: "splitext ''source/clip.mp3'' = (''source/clip'', ''.mp3'')"
    by (simp add: splitext_def rfind_def)
  have m: "StartTranscriptionJob ?req \<in> set (fst (trigger_lambda_handler ?w ?e))"
    by (simp add: trigger_lambda_handler_def e Let_def)
  from job_name_format[of "\<lambda>i. 7 * i + 100" ?w ?e] m
  have "job_name_filter ?n" and "JobName ?req = job_name (random_draw ?w)"
    by blast+
  with n m show ?thesis by simp
qed

end
